theory Spec2Isabelle
  imports Complex_Main
begin

section \<open>Numbers, values and exceptions\<close>

text \<open>
  The two modules compute with Python floats and with the \<open>float64\<close> scalars that numpy
  and scipy return. Floats are idealised as real numbers: no rounding and no overflow.
  What the idealisation keeps is the difference between the two kinds of number at the
  points where they behave differently:

  \<^item> a Python \<open>int\<close> or \<open>float\<close> divided by zero raises \<open>ZeroDivisionError\<close>;
  \<^item> a numpy scalar divided by zero, \<open>np.log\<close> of a number that is not positive and
    \<open>np.sqrt\<close> of a negative number raise nothing: they issue a warning and return
    \<open>inf\<close>, \<open>-inf\<close> or \<open>nan\<close>.

  A numpy scalar is therefore \<open>Fin x\<close> for a real \<open>x\<close>, or \<open>NonFinite\<close>. The value
  \<open>NonFinite\<close> is absorbing: it says that some float of the computation was \<open>inf\<close>,
  \<open>-inf\<close> or \<open>nan\<close>, and the model follows the computation no further. A result
  \<open>Fin x\<close> says that every float on the way was finite and that the float returned is
  \<open>x\<close>.
\<close>

datatype npfloat = Fin real | NonFinite

fun np_lift2 :: "(real \<Rightarrow> real \<Rightarrow> real) \<Rightarrow> npfloat \<Rightarrow> npfloat \<Rightarrow> npfloat" where
  "np_lift2 f (Fin x) (Fin y) = Fin (f x y)"
| "np_lift2 f _ _ = NonFinite"

instantiation npfloat :: "{plus, minus, uminus, times, inverse}"
begin

definition plus_npfloat :: "npfloat \<Rightarrow> npfloat \<Rightarrow> npfloat" where
  "plus_npfloat a b = np_lift2 (+) a b"

definition minus_npfloat :: "npfloat \<Rightarrow> npfloat \<Rightarrow> npfloat" where
  "minus_npfloat a b = np_lift2 (-) a b"

definition times_npfloat :: "npfloat \<Rightarrow> npfloat \<Rightarrow> npfloat" where
  "times_npfloat a b = np_lift2 (*) a b"

definition uminus_npfloat :: "npfloat \<Rightarrow> npfloat" where
  "uminus_npfloat a = (case a of Fin x \<Rightarrow> Fin (- x) | NonFinite \<Rightarrow> NonFinite)"

definition divide_npfloat :: "npfloat \<Rightarrow> npfloat \<Rightarrow> npfloat" where
  "divide_npfloat a b =
     (case (a, b) of
        (Fin x, Fin y) \<Rightarrow> (if y = 0 then NonFinite else Fin (x / y))
      | _ \<Rightarrow> NonFinite)"

definition inverse_npfloat :: "npfloat \<Rightarrow> npfloat" where
  "inverse_npfloat a = divide (Fin 1) a"

instance ..

end

text \<open>\<open>np.log\<close>, \<open>np.sqrt\<close> and \<open>np.exp\<close> of a Python float.\<close>

definition np_log :: "real \<Rightarrow> npfloat" where
  "np_log x = (if 0 < x then Fin (ln x) else NonFinite)"

definition np_sqrt :: "real \<Rightarrow> npfloat" where
  "np_sqrt x = (if 0 \<le> x then Fin (sqrt x) else NonFinite)"

definition np_exp :: "real \<Rightarrow> npfloat" where
  "np_exp x = Fin (exp x)"

text \<open>
  What a method returns: a numpy scalar, a Python number, or Python's \<open>None\<close> (a
  method that ends without reaching a \<open>return\<close>).
\<close>

datatype pyval = NpFloat npfloat | PyNum real | PyNone

text \<open>
  The exceptions. The two \<open>ValueError\<close>s of the source differ in their message and in
  the place that raises them: the one of the pricing methods
  (\<open>Option type must be 'call' or 'put'.\<close>) and the one of \<open>z_score\<close>
  (\<open>No implied volatility found for strike ...\<close>).
\<close>

datatype pyerr =
    ValueError_option_type
  | ValueError_no_implied_vol
  | ZeroDivisionError
  | UnboundLocalError
  | TypeError

text \<open>
  \<open>a / b\<close> where \<open>a\<close> is what a method returned and \<open>b\<close> is a Python number. Python
  raises on a zero divisor only when both operands are Python numbers; with a numpy
  scalar on the left the division is numpy's.
\<close>

fun py_truediv :: "pyval \<Rightarrow> real \<Rightarrow> pyerr + pyval" where
  "py_truediv (PyNum a) b = (if b = 0 then Inl ZeroDivisionError else Inr (PyNum (a / b)))"
| "py_truediv (NpFloat a) b = Inr (NpFloat (a / Fin b))"
| "py_truediv PyNone b = Inl TypeError"

text \<open>\<open>a + b\<close> for two values: a numpy scalar on either side makes the sum one.\<close>

fun py_add :: "pyval \<Rightarrow> pyval \<Rightarrow> pyerr + pyval" where
  "py_add (PyNum a) (PyNum b) = Inr (PyNum (a + b))"
| "py_add (PyNum a) (NpFloat b) = Inr (NpFloat (Fin a + b))"
| "py_add (NpFloat a) (PyNum b) = Inr (NpFloat (a + Fin b))"
| "py_add (NpFloat a) (NpFloat b) = Inr (NpFloat (a + b))"
| "py_add _ _ = Inl TypeError"

section \<open>The standard normal distribution\<close>

text \<open>
  \<open>scipy.stats.norm.pdf\<close> and \<open>scipy.stats.norm.cdf\<close> are library functions. Over the
  reals the density is \<open>exp (- x\<^sup>2 / 2) / sqrt (2 * pi)\<close>, and the distribution function
  is given by its power series around 0:
  \<open>1 / 2 + (\<Sum>n. (- 1) ^ n * x ^ (2 * n + 1) / (n! * 2 ^ n * (2 * n + 1))) / sqrt (2 * pi)\<close>,
  whose \<open>n\<close>-th term is written below as \<open>x * (- x\<^sup>2 / 2) ^ n / (n! * (2 * n + 1))\<close>.
  That this function is the distribution function is checked further down: its value at
  0 is 1/2 and its derivative is the density everywhere.
\<close>

definition norm_pdf :: "real \<Rightarrow> real" where
  "norm_pdf x = exp (- x\<^sup>2 / 2) / sqrt (2 * pi)"

definition cdf_term :: "real \<Rightarrow> nat \<Rightarrow> real" where
  "cdf_term x n = x * (- x\<^sup>2 / 2) ^ n / (fact n * real (2 * n + 1))"

definition norm_cdf :: "real \<Rightarrow> real" where
  "norm_cdf x = 1 / 2 + (\<Sum>n. cdf_term x n) / sqrt (2 * pi)"

text \<open>
  The coefficients of that series as a power series in \<open>x\<^sup>2\<close>; they serve to differentiate
  it term by term.
\<close>

definition cdf_coeff :: "nat \<Rightarrow> real" where
  "cdf_coeff n = (- 1 / 2) ^ n / (fact n * real (2 * n + 1))"

text \<open>Both functions applied to a numpy scalar.\<close>

definition stats_norm_pdf :: "npfloat \<Rightarrow> npfloat" where
  "stats_norm_pdf d = (case d of Fin x \<Rightarrow> Fin (norm_pdf x) | NonFinite \<Rightarrow> NonFinite)"

definition stats_norm_cdf :: "npfloat \<Rightarrow> npfloat" where
  "stats_norm_cdf d = (case d of Fin x \<Rightarrow> Fin (norm_cdf x) | NonFinite \<Rightarrow> NonFinite)"

section \<open>Equity.py: class EquityOption\<close>

record EquityOption =
  strike :: real
  expiry :: real
  option_type :: string
  implied_vol :: real
  spot :: real
  interest_rate :: real
  dividend_yield :: real

text \<open>
  The numeric fields of a leg are Python numbers (\<open>float\<close> in the docstring of
  \<open>__init__\<close>, and \<open>int\<close> in \<open>main\<close>); the constructor checks nothing, so any real
  number can stand in any of them, and any string in \<open>option_type\<close>.

  \<open>d1_d2\<close>. The quotient \<open>self.spot / self.strike\<close> is a division of Python numbers and
  raises on a zero strike; everything after \<open>np.log\<close> is numpy arithmetic.
\<close>

definition EquityOption_d1_d2 :: "EquityOption \<Rightarrow> pyerr + npfloat \<times> npfloat" where
  "EquityOption_d1_d2 self =
     (if strike self = 0 then Inl ZeroDivisionError
      else
        let d1 = (np_log (spot self / strike self) +
                  Fin ((interest_rate self - dividend_yield self + 0.5 * (implied_vol self)\<^sup>2) * expiry self))
                 / (Fin (implied_vol self) * np_sqrt (expiry self));
            d2 = d1 - Fin (implied_vol self) * np_sqrt (expiry self)
        in Inr (d1, d2))"

definition EquityOption_black_scholes_merton :: "EquityOption \<Rightarrow> pyerr + pyval" where
  "EquityOption_black_scholes_merton self =
     (case EquityOption_d1_d2 self of
        Inl e \<Rightarrow> Inl e
      | Inr (d1, d2) \<Rightarrow>
          if option_type self = ''call'' then
            Inr (NpFloat (Fin (spot self) * np_exp (- dividend_yield self * expiry self) * stats_norm_cdf d1 -
                          Fin (strike self) * np_exp (- interest_rate self * expiry self) * stats_norm_cdf d2))
          else if option_type self = ''put'' then
            Inr (NpFloat (Fin (strike self) * np_exp (- interest_rate self * expiry self) * stats_norm_cdf (- d2) -
                          Fin (spot self) * np_exp (- dividend_yield self * expiry self) * stats_norm_cdf (- d1)))
          else Inl ValueError_option_type)"

text \<open>\<open>delta\<close> has no \<open>else\<close> branch: for any other option type it returns \<open>None\<close>.\<close>

definition EquityOption_delta :: "EquityOption \<Rightarrow> pyerr + pyval" where
  "EquityOption_delta self =
     (case EquityOption_d1_d2 self of
        Inl e \<Rightarrow> Inl e
      | Inr (d1, _) \<Rightarrow>
          if option_type self = ''call'' then
            Inr (NpFloat (np_exp (- dividend_yield self * expiry self) * stats_norm_cdf d1))
          else if option_type self = ''put'' then
            Inr (NpFloat (np_exp (- dividend_yield self * expiry self) * (stats_norm_cdf d1 - Fin 1)))
          else Inr PyNone)"

definition EquityOption_gamma :: "EquityOption \<Rightarrow> pyerr + pyval" where
  "EquityOption_gamma self =
     (case EquityOption_d1_d2 self of
        Inl e \<Rightarrow> Inl e
      | Inr (d1, _) \<Rightarrow>
          Inr (NpFloat (stats_norm_pdf d1 / (Fin (spot self * implied_vol self) * np_sqrt (expiry self)))))"

definition EquityOption_vega :: "EquityOption \<Rightarrow> pyerr + pyval" where
  "EquityOption_vega self =
     (case EquityOption_d1_d2 self of
        Inl e \<Rightarrow> Inl e
      | Inr (d1, _) \<Rightarrow>
          let vega = Fin (spot self) * np_exp (- dividend_yield self * expiry self) * stats_norm_pdf d1
                     * np_sqrt (expiry self)
          in Inr (NpFloat (vega / Fin 100)))"

text \<open>
  \<open>theta\<close> and \<open>rho\<close> assign their local variable in the two branches only; for any
  other option type the \<open>return\<close> reads a local that was never bound.
\<close>

definition EquityOption_theta :: "EquityOption \<Rightarrow> pyerr + pyval" where
  "EquityOption_theta self =
     (case EquityOption_d1_d2 self of
        Inl e \<Rightarrow> Inl e
      | Inr (d1, d2) \<Rightarrow>
          if option_type self = ''call'' then
            let theta =
              - (Fin (spot self) * stats_norm_pdf d1 * Fin (implied_vol self)
                 * np_exp (- dividend_yield self * expiry self)) / (Fin 2 * np_sqrt (expiry self))
              - Fin (interest_rate self * strike self) * np_exp (- interest_rate self * expiry self)
                * stats_norm_cdf d2
              + Fin (dividend_yield self * spot self) * np_exp (- dividend_yield self * expiry self)
                * stats_norm_cdf d1
            in Inr (NpFloat (theta / Fin 365))
          else if option_type self = ''put'' then
            let theta =
              - (Fin (spot self) * stats_norm_pdf d1 * Fin (implied_vol self)
                 * np_exp (- dividend_yield self * expiry self)) / (Fin 2 * np_sqrt (expiry self))
              + Fin (interest_rate self * strike self) * np_exp (- interest_rate self * expiry self)
                * stats_norm_cdf (- d2)
              - Fin (dividend_yield self * spot self) * np_exp (- dividend_yield self * expiry self)
                * stats_norm_cdf (- d1)
            in Inr (NpFloat (theta / Fin 365))
          else Inl UnboundLocalError)"

definition EquityOption_rho :: "EquityOption \<Rightarrow> pyerr + pyval" where
  "EquityOption_rho self =
     (case EquityOption_d1_d2 self of
        Inl e \<Rightarrow> Inl e
      | Inr (_, d2) \<Rightarrow>
          if option_type self = ''call'' then
            let rho = Fin (strike self * expiry self) * np_exp (- interest_rate self * expiry self)
                      * stats_norm_cdf d2
            in Inr (NpFloat (rho / Fin 100))
          else if option_type self = ''put'' then
            let rho = Fin (- strike self * expiry self) * np_exp (- interest_rate self * expiry self)
                      * stats_norm_cdf (- d2)
            in Inr (NpFloat (rho / Fin 100))
          else Inl UnboundLocalError)"

section \<open>FX.py: class Option\<close>

text \<open>
  The FX leg has the first six fields of the equity leg and no dividend yield. The two
  classes are unrelated in the source, so they are two records here; a field name
  written without a prefix is the FX leg's from here on, and the equity leg's is
  written \<open>EquityOption.strike\<close> and so on.
\<close>

record Option =
  strike :: real
  expiry :: real
  option_type :: string
  implied_vol :: real
  spot :: real
  interest_rate :: real

definition Option_d1_d2 :: "Option \<Rightarrow> pyerr + npfloat \<times> npfloat" where
  "Option_d1_d2 self =
     (if strike self = 0 then Inl ZeroDivisionError
      else
        let d1 = (np_log (spot self / strike self) +
                  Fin ((interest_rate self + 0.5 * (implied_vol self)\<^sup>2) * expiry self))
                 / (Fin (implied_vol self) * np_sqrt (expiry self));
            d2 = d1 - Fin (implied_vol self) * np_sqrt (expiry self)
        in Inr (d1, d2))"

definition Option_black_scholes :: "Option \<Rightarrow> pyerr + pyval" where
  "Option_black_scholes self =
     (case Option_d1_d2 self of
        Inl e \<Rightarrow> Inl e
      | Inr (d1, d2) \<Rightarrow>
          if option_type self = ''call'' then
            Inr (NpFloat (Fin (spot self) * stats_norm_cdf d1 -
                          Fin (strike self) * np_exp (- interest_rate self * expiry self) * stats_norm_cdf d2))
          else if option_type self = ''put'' then
            Inr (NpFloat (Fin (strike self) * np_exp (- interest_rate self * expiry self) * stats_norm_cdf (- d2) -
                          Fin (spot self) * stats_norm_cdf (- d1)))
          else Inl ValueError_option_type)"

definition Option_delta :: "Option \<Rightarrow> pyerr + pyval" where
  "Option_delta self =
     (case Option_d1_d2 self of
        Inl e \<Rightarrow> Inl e
      | Inr (d1, _) \<Rightarrow>
          if option_type self = ''call'' then Inr (NpFloat (stats_norm_cdf d1))
          else if option_type self = ''put'' then Inr (NpFloat (stats_norm_cdf d1 - Fin 1))
          else Inr PyNone)"

definition Option_gamma :: "Option \<Rightarrow> pyerr + pyval" where
  "Option_gamma self =
     (case Option_d1_d2 self of
        Inl e \<Rightarrow> Inl e
      | Inr (d1, _) \<Rightarrow>
          Inr (NpFloat (stats_norm_pdf d1 / (Fin (spot self * implied_vol self) * np_sqrt (expiry self)))))"

definition Option_vega :: "Option \<Rightarrow> pyerr + pyval" where
  "Option_vega self =
     (case Option_d1_d2 self of
        Inl e \<Rightarrow> Inl e
      | Inr (d1, _) \<Rightarrow>
          let vega = Fin (spot self) * stats_norm_pdf d1 * np_sqrt (expiry self)
          in Inr (NpFloat (vega / Fin 100)))"

definition Option_theta :: "Option \<Rightarrow> pyerr + pyval" where
  "Option_theta self =
     (case Option_d1_d2 self of
        Inl e \<Rightarrow> Inl e
      | Inr (d1, d2) \<Rightarrow>
          if option_type self = ''call'' then
            let theta =
              - (Fin (spot self) * stats_norm_pdf d1 * Fin (implied_vol self)) / (Fin 2 * np_sqrt (expiry self))
              - Fin (interest_rate self * strike self) * np_exp (- interest_rate self * expiry self)
                * stats_norm_cdf d2
            in Inr (NpFloat (theta / Fin 365))
          else if option_type self = ''put'' then
            let theta =
              - (Fin (spot self) * stats_norm_pdf d1 * Fin (implied_vol self)) / (Fin 2 * np_sqrt (expiry self))
              + Fin (interest_rate self * strike self) * np_exp (- interest_rate self * expiry self)
                * stats_norm_cdf (- d2)
            in Inr (NpFloat (theta / Fin 365))
          else Inl UnboundLocalError)"

definition Option_rho :: "Option \<Rightarrow> pyerr + pyval" where
  "Option_rho self =
     (case Option_d1_d2 self of
        Inl e \<Rightarrow> Inl e
      | Inr (_, d2) \<Rightarrow>
          if option_type self = ''call'' then
            let rho = Fin (strike self * expiry self) * np_exp (- interest_rate self * expiry self)
                      * stats_norm_cdf d2
            in Inr (NpFloat (rho / Fin 100))
          else if option_type self = ''put'' then
            let rho = Fin (- strike self * expiry self) * np_exp (- interest_rate self * expiry self)
                      * stats_norm_cdf (- d2)
            in Inr (NpFloat (rho / Fin 100))
          else Inl UnboundLocalError)"

section \<open>FX.py: class Strategy and its subclasses\<close>

record Strategy =
  options :: "Option list"

text \<open>
  Python's \<open>sum\<close> over a generator: the accumulator starts as the integer 0, each item
  is computed when it is reached and added at once, and the first exception (of an item
  or of an addition) ends the loop.
\<close>

fun py_sum :: "('a \<Rightarrow> pyerr + pyval) \<Rightarrow> pyval \<Rightarrow> 'a list \<Rightarrow> pyerr + pyval" where
  "py_sum f acc [] = Inr acc"
| "py_sum f acc (x # xs) =
     (case f x of
        Inl e \<Rightarrow> Inl e
      | Inr v \<Rightarrow> (case py_add acc v of Inl e \<Rightarrow> Inl e | Inr acc' \<Rightarrow> py_sum f acc' xs))"

definition Strategy_strategy_price :: "Strategy \<Rightarrow> pyerr + pyval" where
  "Strategy_strategy_price self = py_sum Option_black_scholes (PyNum 0) (options self)"

definition Strategy_strategy_delta :: "Strategy \<Rightarrow> pyerr + pyval" where
  "Strategy_strategy_delta self = py_sum Option_delta (PyNum 0) (options self)"



definition Butterfly :: "Option \<Rightarrow> Option \<Rightarrow> Option \<Rightarrow> Strategy" where
  "Butterfly lower_strike middle_strike upper_strike =
     \<lparr>options = [lower_strike, middle_strike, middle_strike, upper_strike]\<rparr>"

section \<open>FX.py and Equity.py: class VolatilityAnalyzer\<close>

text \<open>
  \<open>np.mean\<close> and \<open>np.std\<close> of a list of Python floats. On the empty list both return
  \<open>nan\<close> with a warning. \<open>np.std\<close> is the square root of the mean of the squared
  deviations from the mean.
\<close>

definition np_mean :: "real list \<Rightarrow> npfloat" where
  "np_mean xs = (if xs = [] then NonFinite else Fin (sum_list xs / real (length xs)))"

definition np_std :: "real list \<Rightarrow> npfloat" where
  "np_std xs =
     (case np_mean xs of
        NonFinite \<Rightarrow> NonFinite
      | Fin m \<Rightarrow> Fin (sqrt (sum_list (map (\<lambda>x. (x - m)\<^sup>2) xs) / real (length xs))))"

text \<open>
  \<open>z_score\<close> has the same text in both modules. The dictionary is the list of its items
  in insertion order; a Python dictionary holds each key once, so the lists that stand
  for dictionaries are those whose keys are distinct. \<open>implied_vols.get(strike)\<close> is
  \<open>map_of\<close>.
\<close>

definition VolatilityAnalyzer_z_score :: "(real \<times> real) list \<Rightarrow> real \<Rightarrow> pyerr + pyval" where
  "VolatilityAnalyzer_z_score implied_vols strike' =
     (let vol_values = map snd implied_vols;
          mean_vol = np_mean vol_values;
          std_vol = np_std vol_values
      in case map_of implied_vols strike' of
           None \<Rightarrow> Inl ValueError_no_implied_vol
         | Some strike_vol \<Rightarrow> Inr (NpFloat ((Fin strike_vol - mean_vol) / std_vol)))"

definition VolatilityAnalyzer_break_even :: "Strategy \<Rightarrow> real \<Rightarrow> pyerr + pyval" where
  "VolatilityAnalyzer_break_even strategy underlying_move =
     (case Strategy_strategy_price strategy of
        Inl e \<Rightarrow> Inl e
      | Inr total_price \<Rightarrow> py_truediv total_price underlying_move)"

section \<open>The formulas of the specification\<close>

text \<open>
  The specification's formulas, over the reals, as its sections 4.1 and 4.2 write them:
  \<open>S\<close> is the spot, \<open>K\<close> the strike, \<open>r\<close> the interest rate, \<open>q\<close> the dividend yield,
  \<open>\<sigma>\<close> the implied volatility and \<open>T\<close> the expiry.
\<close>

definition spec_d1 :: "real \<Rightarrow> real \<Rightarrow> real \<Rightarrow> real \<Rightarrow> real \<Rightarrow> real \<Rightarrow> real" where
  "spec_d1 S K r q \<sigma> T = (ln (S / K) + (r - q + 0.5 * \<sigma>\<^sup>2) * T) / (\<sigma> * sqrt T)"

definition spec_d2 :: "real \<Rightarrow> real \<Rightarrow> real \<Rightarrow> real \<Rightarrow> real \<Rightarrow> real \<Rightarrow> real" where
  "spec_d2 S K r q \<sigma> T = spec_d1 S K r q \<sigma> T - \<sigma> * sqrt T"

definition spec_equity_call_price :: "real \<Rightarrow> real \<Rightarrow> real \<Rightarrow> real \<Rightarrow> real \<Rightarrow> real \<Rightarrow> real" where
  "spec_equity_call_price S K r q \<sigma> T =
     S * exp (- q * T) * norm_cdf (spec_d1 S K r q \<sigma> T) -
     K * exp (- r * T) * norm_cdf (spec_d2 S K r q \<sigma> T)"

definition spec_equity_put_price :: "real \<Rightarrow> real \<Rightarrow> real \<Rightarrow> real \<Rightarrow> real \<Rightarrow> real \<Rightarrow> real" where
  "spec_equity_put_price S K r q \<sigma> T =
     K * exp (- r * T) * norm_cdf (- spec_d2 S K r q \<sigma> T) -
     S * exp (- q * T) * norm_cdf (- spec_d1 S K r q \<sigma> T)"

definition spec_fx_d1 :: "real \<Rightarrow> real \<Rightarrow> real \<Rightarrow> real \<Rightarrow> real \<Rightarrow> real" where
  "spec_fx_d1 S K r \<sigma> T = (ln (S / K) + (r + 0.5 * \<sigma>\<^sup>2) * T) / (\<sigma> * sqrt T)"

definition spec_fx_d2 :: "real \<Rightarrow> real \<Rightarrow> real \<Rightarrow> real \<Rightarrow> real \<Rightarrow> real" where
  "spec_fx_d2 S K r \<sigma> T = spec_fx_d1 S K r \<sigma> T - \<sigma> * sqrt T"

definition spec_fx_call_price :: "real \<Rightarrow> real \<Rightarrow> real \<Rightarrow> real \<Rightarrow> real \<Rightarrow> real" where
  "spec_fx_call_price S K r \<sigma> T =
     S * norm_cdf (spec_fx_d1 S K r \<sigma> T) - K * exp (- r * T) * norm_cdf (spec_fx_d2 S K r \<sigma> T)"

definition spec_fx_put_price :: "real \<Rightarrow> real \<Rightarrow> real \<Rightarrow> real \<Rightarrow> real \<Rightarrow> real" where
  "spec_fx_put_price S K r \<sigma> T =
     K * exp (- r * T) * norm_cdf (- spec_fx_d2 S K r \<sigma> T) - S * norm_cdf (- spec_fx_d1 S K r \<sigma> T)"

text \<open>The equity leg that has the six fields of an FX leg and the dividend yield \<open>q\<close>.\<close>

definition equity_leg_of :: "Option \<Rightarrow> real \<Rightarrow> EquityOption" where
  "equity_leg_of leg q =
     \<lparr>EquityOption.strike = strike leg, expiry = expiry leg, option_type = option_type leg,
      implied_vol = implied_vol leg, spot = spot leg, interest_rate = interest_rate leg,
      dividend_yield = q\<rparr>"

text \<open>
  The names the specification gives to the failures (its section 7). The \<open>ValueError\<close> of
  the pricing methods and a division by zero are its InvalidArgument, the \<open>ValueError\<close>
  of \<open>z_score\<close> is its NotFound; it has no name for the other two exceptions.
\<close>

datatype error_kind = InvalidArgument | NotFound | Unclassified

fun error_kind_of :: "pyerr \<Rightarrow> error_kind" where
  "error_kind_of ValueError_option_type = InvalidArgument"
| "error_kind_of ZeroDivisionError = InvalidArgument"
| "error_kind_of ValueError_no_implied_vol = NotFound"
| "error_kind_of UnboundLocalError = Unclassified"
| "error_kind_of TypeError = Unclassified"

text \<open>
  Population mean and population standard deviation of the values of a mapping, as the
  specification words them: sums over the keys, divided by the number of keys.
\<close>

definition population_mean :: "(real \<rightharpoonup> real) \<Rightarrow> real" where
  "population_mean m = (\<Sum>k\<in>dom m. the (m k)) / real (card (dom m))"

definition population_std :: "(real \<rightharpoonup> real) \<Rightarrow> real" where
  "population_std m =
     sqrt ((\<Sum>k\<in>dom m. (the (m k) - population_mean m)\<^sup>2) / real (card (dom m)))"

section \<open>Arithmetic of the values\<close>

lemma Fin_plus [simp]: "Fin a + Fin b = Fin (a + b)"
  by (simp add: plus_npfloat_def)

lemma Fin_minus [simp]: "Fin a - Fin b = Fin (a - b)"
  by (simp add: minus_npfloat_def)

lemma Fin_times [simp]: "Fin a * Fin b = Fin (a * b)"
  by (simp add: times_npfloat_def)

lemma Fin_uminus [simp]: "- Fin a = Fin (- a)"
  by (simp add: uminus_npfloat_def)

lemma Fin_divide [simp]: "Fin a / Fin b = (if b = 0 then NonFinite else Fin (a / b))"
  by (simp add: divide_npfloat_def)

lemma NonFinite_absorb [simp]:
  "NonFinite + x = NonFinite" "x + NonFinite = NonFinite"
  "NonFinite - x = NonFinite" "x - NonFinite = NonFinite"
  "NonFinite * x = NonFinite" "x * NonFinite = NonFinite"
  "NonFinite / x = NonFinite" "x / NonFinite = NonFinite"
  "- NonFinite = NonFinite"
  by (cases x; simp add: plus_npfloat_def minus_npfloat_def times_npfloat_def
        divide_npfloat_def uminus_npfloat_def)+

lemma Fin_1_times [simp]: "Fin 1 * x = x" "x * Fin 1 = x"
  by (cases x; simp)+

lemma np_exp_Fin [simp]: "np_exp x = Fin (exp x)"
  by (simp add: np_exp_def)

lemma np_sqrt_cases: "np_sqrt x = NonFinite \<or> (\<exists>y. np_sqrt x = Fin y)"
  by (simp add: np_sqrt_def)

lemma stats_norm_simps [simp]:
  "stats_norm_cdf (Fin x) = Fin (norm_cdf x)" "stats_norm_pdf (Fin x) = Fin (norm_pdf x)"
  "stats_norm_cdf NonFinite = NonFinite" "stats_norm_pdf NonFinite = NonFinite"
  by (simp_all add: stats_norm_cdf_def stats_norm_pdf_def)

section \<open>The distribution function: symmetry, derivative\<close>

lemma summable_cdf_term: "summable (cdf_term x)"
proof (rule summable_comparison_test')
  show "summable (\<lambda>n. \<bar>x\<bar> * ((x\<^sup>2 / 2) ^ n /\<^sub>R fact n))"
    by (intro summable_mult summable_exp_generic)
  show "norm (cdf_term x n) \<le> \<bar>x\<bar> * ((x\<^sup>2 / 2) ^ n /\<^sub>R fact n)" for n
  proof -
    have "norm (cdf_term x n) = (\<bar>x\<bar> * (x\<^sup>2 / 2) ^ n) / (fact n * real (2 * n + 1))"
      by (simp add: cdf_term_def abs_mult power_abs)
    also have "\<dots> \<le> (\<bar>x\<bar> * (x\<^sup>2 / 2) ^ n) / fact n"
      by (rule frac_le) simp_all
    also have "\<dots> = \<bar>x\<bar> * ((x\<^sup>2 / 2) ^ n /\<^sub>R fact n)"
      by (simp add: field_simps)
    finally show ?thesis .
  qed
qed

lemma norm_cdf_minus: "norm_cdf (- x) = 1 - norm_cdf x"
proof -
  have "cdf_term (- x) n = - cdf_term x n" for n
    by (simp add: cdf_term_def)
  then have "(\<Sum>n. cdf_term (- x) n) = - (\<Sum>n. cdf_term x n)"
    by (simp add: suminf_minus summable_cdf_term)
  then show ?thesis
    by (simp add: norm_cdf_def)
qed

lemma norm_pdf_pos: "0 < norm_pdf x"
  by (simp add: norm_pdf_def)

lemma cdf_term_coeff: "cdf_term x n = x * (cdf_coeff n * (x\<^sup>2) ^ n)"
proof -
  have "(- x\<^sup>2 / 2) ^ n = ((- 1 / 2) * x\<^sup>2) ^ n"
    by simp
  also have "\<dots> = (- 1 / 2) ^ n * (x\<^sup>2) ^ n"
    by (rule power_mult_distrib)
  finally show ?thesis
    by (simp add: cdf_term_def cdf_coeff_def)
qed

lemma summable_cdf_coeff: "summable (\<lambda>n. cdf_coeff n * y ^ n)"
proof (rule summable_comparison_test')
  show "summable (\<lambda>n. (\<bar>y\<bar> / 2) ^ n /\<^sub>R fact n)"
    by (rule summable_exp_generic)
  show "norm (cdf_coeff n * y ^ n) \<le> (\<bar>y\<bar> / 2) ^ n /\<^sub>R fact n" for n
  proof -
    have "norm (cdf_coeff n * y ^ n) = (\<bar>y\<bar> / 2) ^ n / (fact n * real (2 * n + 1))"
      by (simp add: cdf_coeff_def abs_mult power_abs power_divide)
    also have "\<dots> \<le> (\<bar>y\<bar> / 2) ^ n / fact n"
      by (rule frac_le) simp_all
    also have "\<dots> = (\<bar>y\<bar> / 2) ^ n /\<^sub>R fact n"
      by (simp add: field_simps)
    finally show ?thesis .
  qed
qed

lemma cdf_series_deriv:
  "(\<Sum>n. cdf_coeff n * y ^ n) + 2 * y * (\<Sum>n. diffs cdf_coeff n * y ^ n) = exp (- y / 2)"
proof -
  have s1: "(\<lambda>n. cdf_coeff n * y ^ n) sums (\<Sum>n. cdf_coeff n * y ^ n)"
    by (rule summable_sums [OF summable_cdf_coeff])
  have "summable (\<lambda>n. diffs cdf_coeff n * y ^ n)"
    by (rule termdiff_converges_all) (rule summable_cdf_coeff)
  then have "(\<lambda>n. of_nat n * cdf_coeff n * y ^ (n - Suc 0)) sums (\<Sum>n. diffs cdf_coeff n * y ^ n)"
    by (rule diffs_equiv)
  then have s2: "(\<lambda>n. 2 * y * (of_nat n * cdf_coeff n * y ^ (n - Suc 0)))
                   sums (2 * y * (\<Sum>n. diffs cdf_coeff n * y ^ n))"
    by (rule sums_mult)
  have t: "cdf_coeff n * y ^ n + 2 * y * (of_nat n * cdf_coeff n * y ^ (n - Suc 0)) =
           (- y / 2) ^ n /\<^sub>R fact n" for n
  proof (cases n)
    case 0
    then show ?thesis by (simp add: cdf_coeff_def)
  next
    case (Suc k)
    have "cdf_coeff n * y ^ n + 2 * y * (of_nat n * cdf_coeff n * y ^ (n - Suc 0)) =
          cdf_coeff n * y ^ n * real (2 * n + 1)"
      using Suc by (simp add: algebra_simps)
    also have "\<dots> = (- 1 / 2) ^ n * y ^ n / fact n"
      by (simp add: cdf_coeff_def)
    also have "\<dots> = ((- 1 / 2) * y) ^ n / fact n"
      by (simp only: power_mult_distrib)
    also have "\<dots> = (- y / 2) ^ n / fact n"
      by simp
    also have "\<dots> = (- y / 2) ^ n /\<^sub>R fact n"
      by (simp add: field_simps)
    finally show ?thesis .
  qed
  from sums_add [OF s1 s2] have "(\<lambda>n. (- y / 2) ^ n /\<^sub>R fact n)
      sums ((\<Sum>n. cdf_coeff n * y ^ n) + 2 * y * (\<Sum>n. diffs cdf_coeff n * y ^ n))"
    by (simp only: t)
  then show ?thesis
    by (simp add: exp_def sums_unique)
qed

lemma norm_cdf_series: "norm_cdf x = 1 / 2 + x * (\<Sum>n. cdf_coeff n * (x\<^sup>2) ^ n) / sqrt (2 * pi)"
proof -
  have "(\<Sum>n. cdf_term x n) = x * (\<Sum>n. cdf_coeff n * (x\<^sup>2) ^ n)"
    unfolding cdf_term_coeff by (rule suminf_mult [OF summable_cdf_coeff])
  then show ?thesis by (simp add: norm_cdf_def)
qed

lemma norm_cdf_has_derivative: "(norm_cdf has_real_derivative norm_pdf x) (at x)"
proof -
  let ?h = "\<lambda>y. \<Sum>n. cdf_coeff n * y ^ n"
  let ?h' = "\<lambda>y. \<Sum>n. diffs cdf_coeff n * y ^ n"
  have h: "(?h has_real_derivative ?h' y) (at y)" for y
    by (rule termdiffs_strong_converges_everywhere) (rule summable_cdf_coeff)
  have sq: "((\<lambda>x. x\<^sup>2) has_real_derivative 2 * x) (at x)"
    using DERIV_power [OF DERIV_ident, of 2 x UNIV] by simp
  have h2: "((\<lambda>x. ?h (x\<^sup>2)) has_real_derivative ?h' (x\<^sup>2) * (2 * x)) (at x)"
    by (rule DERIV_chain2 [OF h sq])
  have h3: "((\<lambda>x. x * ?h (x\<^sup>2)) has_real_derivative
              1 * ?h (x\<^sup>2) + ?h' (x\<^sup>2) * (2 * x) * x) (at x)"
    by (rule DERIV_mult [OF DERIV_ident h2])
  have h4: "((\<lambda>x. 1 / 2 + x * ?h (x\<^sup>2) / sqrt (2 * pi)) has_real_derivative
              0 + (1 * ?h (x\<^sup>2) + ?h' (x\<^sup>2) * (2 * x) * x) / sqrt (2 * pi)) (at x)"
    by (rule DERIV_add [OF DERIV_const DERIV_cdivide [OF h3]])
  have "0 + (1 * ?h (x\<^sup>2) + ?h' (x\<^sup>2) * (2 * x) * x) / sqrt (2 * pi) =
          (?h (x\<^sup>2) + 2 * x\<^sup>2 * ?h' (x\<^sup>2)) / sqrt (2 * pi)"
    by (simp add: power2_eq_square)
  with h4 have "((\<lambda>x. 1 / 2 + x * ?h (x\<^sup>2) / sqrt (2 * pi)) has_real_derivative
          (?h (x\<^sup>2) + 2 * x\<^sup>2 * ?h' (x\<^sup>2)) / sqrt (2 * pi)) (at x)"
    by (simp only:)
  moreover have "(\<lambda>x. 1 / 2 + x * ?h (x\<^sup>2) / sqrt (2 * pi)) = norm_cdf"
    by (rule ext) (simp add: norm_cdf_series)
  moreover have "(?h (x\<^sup>2) + 2 * x\<^sup>2 * ?h' (x\<^sup>2)) / sqrt (2 * pi) = norm_pdf x"
    by (simp add: cdf_series_deriv norm_pdf_def)
  ultimately show ?thesis by simp
qed

lemma norm_cdf_0: "norm_cdf 0 = 1 / 2"
  by (simp add: norm_cdf_series)

section \<open>Prices\<close>

lemma EquityOption_d1_d2_Fin:
  assumes "0 < EquityOption.implied_vol self" "0 < EquityOption.expiry self"
    and "EquityOption.strike self \<noteq> 0" "0 < EquityOption.spot self / EquityOption.strike self"
  shows "EquityOption_d1_d2 self =
    Inr (Fin (spec_d1 (EquityOption.spot self) (EquityOption.strike self) (EquityOption.interest_rate self)
               (dividend_yield self) (EquityOption.implied_vol self) (EquityOption.expiry self)),
         Fin (spec_d2 (EquityOption.spot self) (EquityOption.strike self) (EquityOption.interest_rate self)
               (dividend_yield self) (EquityOption.implied_vol self) (EquityOption.expiry self)))"
  using assms
  by (simp add: EquityOption_d1_d2_def np_log_def np_sqrt_def spec_d1_def spec_d2_def Let_def)

lemma Option_d1_d2_Fin:
  assumes "0 < implied_vol self" "0 < expiry self"
    and "strike self \<noteq> 0" "0 < spot self / strike self"
  shows "Option_d1_d2 self =
    Inr (Fin (spec_fx_d1 (spot self) (strike self) (interest_rate self) (implied_vol self) (expiry self)),
         Fin (spec_fx_d2 (spot self) (strike self) (interest_rate self) (implied_vol self) (expiry self)))"
  using assms
  by (simp add: Option_d1_d2_def np_log_def np_sqrt_def spec_fx_d1_def spec_fx_d2_def Let_def)

text \<open>
  C1 (as amended). For every equity leg with positive implied volatility and expiry, a
  strike that is not zero and a positive quotient spot/strike, \<open>black_scholes_merton\<close>
  returns \<open>S * exp (- q * T) * \<Phi> d1 - K * exp (- r * T) * \<Phi> d2\<close> for a call and
  \<open>K * exp (- r * T) * \<Phi> (- d2) - S * exp (- q * T) * \<Phi> (- d1)\<close> for a put, with \<open>d1\<close>
  and \<open>d2\<close> as the specification defines them.
\<close>

theorem black_scholes_merton_formula:
  assumes "0 < EquityOption.implied_vol self" "0 < EquityOption.expiry self"
    and "EquityOption.strike self \<noteq> 0" "0 < EquityOption.spot self / EquityOption.strike self"
  shows "(EquityOption.option_type self = ''call'' \<longrightarrow>
           EquityOption_black_scholes_merton self =
             Inr (NpFloat (Fin (spec_equity_call_price (EquityOption.spot self) (EquityOption.strike self)
               (EquityOption.interest_rate self) (dividend_yield self)
               (EquityOption.implied_vol self) (EquityOption.expiry self))))) \<and>
         (EquityOption.option_type self = ''put'' \<longrightarrow>
           EquityOption_black_scholes_merton self =
             Inr (NpFloat (Fin (spec_equity_put_price (EquityOption.spot self) (EquityOption.strike self)
               (EquityOption.interest_rate self) (dividend_yield self)
               (EquityOption.implied_vol self) (EquityOption.expiry self)))))"
  by (simp add: EquityOption_black_scholes_merton_def EquityOption_d1_d2_Fin [OF assms]
        spec_equity_call_price_def spec_equity_put_price_def)

theorem black_scholes_merton_formula_witness:
  "EquityOption_black_scholes_merton
     \<lparr>EquityOption.strike = 105, expiry = 1, option_type = ''call'', implied_vol = 4 / 25, spot = 100,
      interest_rate = 1 / 50, dividend_yield = 3 / 100\<rparr> =
   Inr (NpFloat (Fin (spec_equity_call_price 100 105 (1 / 50) (3 / 100) (4 / 25) 1)))"
  using black_scholes_merton_formula [of
     "\<lparr>EquityOption.strike = 105, expiry = 1, option_type = ''call'', implied_vol = 4 / 25, spot = 100,
      interest_rate = 1 / 50, dividend_yield = 3 / 100\<rparr>"]
  by simp

text \<open>
  C1 as the claim states it asks for positive implied volatility and expiry only. The
  leg below has both, and a strike of zero: \<open>self.spot / self.strike\<close> raises before any
  price is computed.
\<close>

theorem black_scholes_merton_zero_strike:
  "EquityOption_black_scholes_merton
     \<lparr>EquityOption.strike = 0, expiry = 1, option_type = ''call'', implied_vol = 1 / 5, spot = 100,
      interest_rate = 1 / 50, dividend_yield = 3 / 100\<rparr> = Inl ZeroDivisionError \<and>
   EquityOption_black_scholes_merton
     \<lparr>EquityOption.strike = 0, expiry = 1, option_type = ''call'', implied_vol = 1 / 5, spot = 100,
      interest_rate = 1 / 50, dividend_yield = 3 / 100\<rparr> \<noteq>
   Inr (NpFloat (Fin (spec_equity_call_price 100 0 (1 / 50) (3 / 100) (1 / 5) 1)))"
  by (simp add: EquityOption_black_scholes_merton_def EquityOption_d1_d2_def)

text \<open>
  C2 (as amended). For every FX leg with positive implied volatility and expiry, a
  strike that is not zero and a positive quotient spot/strike, \<open>black_scholes\<close> returns
  \<open>S * \<Phi> d1 - K * exp (- r * T) * \<Phi> d2\<close> for a call and
  \<open>K * exp (- r * T) * \<Phi> (- d2) - S * \<Phi> (- d1)\<close> for a put: the spot term carries no
  discount factor.
\<close>

theorem black_scholes_formula:
  assumes "0 < implied_vol self" "0 < expiry self"
    and "strike self \<noteq> 0" "0 < spot self / strike self"
  shows "(option_type self = ''call'' \<longrightarrow>
           Option_black_scholes self =
             Inr (NpFloat (Fin (spec_fx_call_price (spot self) (strike self) (interest_rate self)
               (implied_vol self) (expiry self))))) \<and>
         (option_type self = ''put'' \<longrightarrow>
           Option_black_scholes self =
             Inr (NpFloat (Fin (spec_fx_put_price (spot self) (strike self) (interest_rate self)
               (implied_vol self) (expiry self)))))"
  by (simp add: Option_black_scholes_def Option_d1_d2_Fin [OF assms]
        spec_fx_call_price_def spec_fx_put_price_def)

theorem black_scholes_formula_witness:
  "Option_black_scholes
     \<lparr>strike = 143, expiry = 1 / 2, option_type = ''put'', implied_vol = 3 / 20, spot = 145,
      interest_rate = 1 / 100\<rparr> =
   Inr (NpFloat (Fin (spec_fx_put_price 145 143 (1 / 100) (3 / 20) (1 / 2))))"
  using black_scholes_formula [of
     "\<lparr>strike = 143, expiry = 1 / 2, option_type = ''put'', implied_vol = 3 / 20, spot = 145,
      interest_rate = 1 / 100\<rparr>"]
  by simp

text \<open>C2 as the claim states it fails on a strike of zero, as C1 does.\<close>

theorem black_scholes_zero_strike:
  "Option_black_scholes
     \<lparr>strike = 0, expiry = 1 / 2, option_type = ''call'', implied_vol = 1 / 10, spot = 145,
      interest_rate = 1 / 100\<rparr> = Inl ZeroDivisionError \<and>
   Option_black_scholes
     \<lparr>strike = 0, expiry = 1 / 2, option_type = ''call'', implied_vol = 1 / 10, spot = 145,
      interest_rate = 1 / 100\<rparr> \<noteq>
   Inr (NpFloat (Fin (spec_fx_call_price 145 0 (1 / 100) (1 / 10) (1 / 2))))"
  by (simp add: Option_black_scholes_def Option_d1_d2_def)

section \<open>The FX model and the equity model\<close>

lemma equity_leg_of_sel [simp]:
  "EquityOption.strike (equity_leg_of leg q) = strike leg"
  "EquityOption.expiry (equity_leg_of leg q) = expiry leg"
  "EquityOption.option_type (equity_leg_of leg q) = option_type leg"
  "EquityOption.implied_vol (equity_leg_of leg q) = implied_vol leg"
  "EquityOption.spot (equity_leg_of leg q) = spot leg"
  "EquityOption.interest_rate (equity_leg_of leg q) = interest_rate leg"
  "dividend_yield (equity_leg_of leg q) = q"
  by (simp_all add: equity_leg_of_def)

lemma EquityOption_d1_d2_zero_dividend:
  "EquityOption_d1_d2 (equity_leg_of leg 0) = Option_d1_d2 leg"
  by (simp add: EquityOption_d1_d2_def Option_d1_d2_def)

text \<open>
  C10. Each of the six operations of an FX leg returns what the operation of the equity
  model returns on the leg with the same six fields and a dividend yield of zero: the
  same number, the same exception or the same \<open>None\<close>.
\<close>

theorem fx_is_equity_with_zero_dividend:
  "Option_black_scholes leg = EquityOption_black_scholes_merton (equity_leg_of leg 0) \<and>
   Option_delta leg = EquityOption_delta (equity_leg_of leg 0) \<and>
   Option_gamma leg = EquityOption_gamma (equity_leg_of leg 0) \<and>
   Option_vega leg = EquityOption_vega (equity_leg_of leg 0) \<and>
   Option_theta leg = EquityOption_theta (equity_leg_of leg 0) \<and>
   Option_rho leg = EquityOption_rho (equity_leg_of leg 0)"
proof (intro conjI)
  show "Option_black_scholes leg = EquityOption_black_scholes_merton (equity_leg_of leg 0)"
    by (simp add: Option_black_scholes_def EquityOption_black_scholes_merton_def
          EquityOption_d1_d2_zero_dividend)
       (simp split: sum.splits prod.splits)
  show "Option_delta leg = EquityOption_delta (equity_leg_of leg 0)"
    by (simp add: Option_delta_def EquityOption_delta_def EquityOption_d1_d2_zero_dividend)
       (simp split: sum.splits prod.splits)
  show "Option_gamma leg = EquityOption_gamma (equity_leg_of leg 0)"
    by (simp add: Option_gamma_def EquityOption_gamma_def EquityOption_d1_d2_zero_dividend)
       (simp split: sum.splits prod.splits)
  show "Option_vega leg = EquityOption_vega (equity_leg_of leg 0)"
    by (simp add: Option_vega_def EquityOption_vega_def EquityOption_d1_d2_zero_dividend)
       (simp split: sum.splits prod.splits)
  show "Option_rho leg = EquityOption_rho (equity_leg_of leg 0)"
    by (simp add: Option_rho_def EquityOption_rho_def EquityOption_d1_d2_zero_dividend)
       (simp split: sum.splits prod.splits)
  show "Option_theta leg = EquityOption_theta (equity_leg_of leg 0)"
  proof (cases "Option_d1_d2 leg")
    case (Inl e)
    then show ?thesis
      by (simp add: Option_theta_def EquityOption_theta_def EquityOption_d1_d2_zero_dividend)
  next
    case (Inr d)
    obtain d1 d2 where d: "d = (d1, d2)" by (cases d)
    have d2: "d2 = d1 - Fin (implied_vol leg) * np_sqrt (expiry leg)"
      using Inr d by (auto simp: Option_d1_d2_def Let_def split: if_splits)
    show ?thesis
    proof (cases d1)
      case NonFinite
      then show ?thesis using Inr d d2
        by (simp add: Option_theta_def EquityOption_theta_def EquityOption_d1_d2_zero_dividend)
    next
      case (Fin x)
      then show ?thesis using Inr d d2 np_sqrt_cases [of "expiry leg"]
        by (auto simp add: Option_theta_def EquityOption_theta_def EquityOption_d1_d2_zero_dividend)
    qed
  qed
qed

section \<open>Put-call parity\<close>

lemma spec_equity_parity:
  "spec_equity_call_price S K r q \<sigma> T - spec_equity_put_price S K r q \<sigma> T =
     S * exp (- q * T) - K * exp (- r * T)"
  by (simp add: spec_equity_call_price_def spec_equity_put_price_def norm_cdf_minus algebra_simps)

lemma spec_fx_parity:
  "spec_fx_call_price S K r \<sigma> T - spec_fx_put_price S K r \<sigma> T = S - K * exp (- r * T)"
  by (simp add: spec_fx_call_price_def spec_fx_put_price_def norm_cdf_minus algebra_simps)

lemma EquityOption_price_call:
  assumes "0 < EquityOption.implied_vol self" "0 < EquityOption.expiry self"
    and "EquityOption.strike self \<noteq> 0" "0 < EquityOption.spot self / EquityOption.strike self"
    and "EquityOption.option_type self = ''call''"
  shows "EquityOption_black_scholes_merton self =
             Inr (NpFloat (Fin (spec_equity_call_price (EquityOption.spot self) (EquityOption.strike self)
               (EquityOption.interest_rate self) (dividend_yield self)
               (EquityOption.implied_vol self) (EquityOption.expiry self))))"
  using assms(5)
  by (simp add: EquityOption_black_scholes_merton_def EquityOption_d1_d2_Fin [OF assms(1-4)]
        spec_equity_call_price_def)

lemma EquityOption_price_put:
  assumes "0 < EquityOption.implied_vol self" "0 < EquityOption.expiry self"
    and "EquityOption.strike self \<noteq> 0" "0 < EquityOption.spot self / EquityOption.strike self"
    and "EquityOption.option_type self = ''put''"
  shows "EquityOption_black_scholes_merton self =
             Inr (NpFloat (Fin (spec_equity_put_price (EquityOption.spot self) (EquityOption.strike self)
               (EquityOption.interest_rate self) (dividend_yield self)
               (EquityOption.implied_vol self) (EquityOption.expiry self))))"
  using assms(5)
  by (simp add: EquityOption_black_scholes_merton_def EquityOption_d1_d2_Fin [OF assms(1-4)]
        spec_equity_put_price_def)

lemma Option_price_call:
  assumes "0 < implied_vol self" "0 < expiry self"
    and "strike self \<noteq> 0" "0 < spot self / strike self"
    and "option_type self = ''call''"
  shows "Option_black_scholes self =
             Inr (NpFloat (Fin (spec_fx_call_price (spot self) (strike self) (interest_rate self)
               (implied_vol self) (expiry self))))"
  using assms(5)
  by (simp add: Option_black_scholes_def Option_d1_d2_Fin [OF assms(1-4)] spec_fx_call_price_def)

lemma Option_price_put:
  assumes "0 < implied_vol self" "0 < expiry self"
    and "strike self \<noteq> 0" "0 < spot self / strike self"
    and "option_type self = ''put''"
  shows "Option_black_scholes self =
             Inr (NpFloat (Fin (spec_fx_put_price (spot self) (strike self) (interest_rate self)
               (implied_vol self) (expiry self))))"
  using assms(5)
  by (simp add: Option_black_scholes_def Option_d1_d2_Fin [OF assms(1-4)] spec_fx_put_price_def)

text \<open>
  C3 (as amended). Two legs of the same model, one a call and one a put, that agree on
  strike, expiry, implied volatility, spot and interest rate (and dividend yield, for the
  equity model), with positive implied volatility and expiry, a strike that is not zero
  and a positive quotient spot/strike: both prices are numbers, and the call price minus
  the put price is \<open>S * exp (- q * T) - K * exp (- r * T)\<close> in the equity model and
  \<open>S - K * exp (- r * T)\<close> in the FX model.
\<close>

theorem put_call_parity:
  fixes c p :: EquityOption and c' p' :: Option
  assumes "EquityOption.option_type c = ''call''" "EquityOption.option_type p = ''put''"
    and "EquityOption.strike p = EquityOption.strike c" "EquityOption.expiry p = EquityOption.expiry c"
    and "EquityOption.implied_vol p = EquityOption.implied_vol c"
    and "EquityOption.spot p = EquityOption.spot c"
    and "EquityOption.interest_rate p = EquityOption.interest_rate c"
    and "dividend_yield p = dividend_yield c"
    and "0 < EquityOption.implied_vol c" "0 < EquityOption.expiry c"
    and "EquityOption.strike c \<noteq> 0" "0 < EquityOption.spot c / EquityOption.strike c"
    and "option_type c' = ''call''" "option_type p' = ''put''"
    and "strike p' = strike c'" "expiry p' = expiry c'" "implied_vol p' = implied_vol c'"
    and "spot p' = spot c'" "interest_rate p' = interest_rate c'"
    and "0 < implied_vol c'" "0 < expiry c'" "strike c' \<noteq> 0" "0 < spot c' / strike c'"
  shows "(\<exists>C P. EquityOption_black_scholes_merton c = Inr (NpFloat (Fin C)) \<and>
                 EquityOption_black_scholes_merton p = Inr (NpFloat (Fin P)) \<and>
                 C - P = EquityOption.spot c * exp (- dividend_yield c * EquityOption.expiry c) -
                         EquityOption.strike c * exp (- EquityOption.interest_rate c * EquityOption.expiry c)) \<and>
         (\<exists>C P. Option_black_scholes c' = Inr (NpFloat (Fin C)) \<and>
                 Option_black_scholes p' = Inr (NpFloat (Fin P)) \<and>
                 C - P = spot c' - strike c' * exp (- interest_rate c' * expiry c'))"
proof
  have "EquityOption_black_scholes_merton p =
          Inr (NpFloat (Fin (spec_equity_put_price (EquityOption.spot c) (EquityOption.strike c)
               (EquityOption.interest_rate c) (dividend_yield c)
               (EquityOption.implied_vol c) (EquityOption.expiry c))))"
    using EquityOption_price_put [of p] assms(2-12) by simp
  with EquityOption_price_call [OF assms(9-12) assms(1)] spec_equity_parity
  show "\<exists>C P. EquityOption_black_scholes_merton c = Inr (NpFloat (Fin C)) \<and>
                 EquityOption_black_scholes_merton p = Inr (NpFloat (Fin P)) \<and>
                 C - P = EquityOption.spot c * exp (- dividend_yield c * EquityOption.expiry c) -
                         EquityOption.strike c * exp (- EquityOption.interest_rate c * EquityOption.expiry c)"
    by blast
next
  have "Option_black_scholes p' =
          Inr (NpFloat (Fin (spec_fx_put_price (spot c') (strike c') (interest_rate c')
               (implied_vol c') (expiry c'))))"
    using Option_price_put [of p'] assms(14-23) by simp
  with Option_price_call [OF assms(20-23) assms(13)] spec_fx_parity
  show "\<exists>C P. Option_black_scholes c' = Inr (NpFloat (Fin C)) \<and>
                 Option_black_scholes p' = Inr (NpFloat (Fin P)) \<and>
                 C - P = spot c' - strike c' * exp (- interest_rate c' * expiry c')"
    by blast
qed


theorem put_call_parity_witness:
  "(\<exists>C P. EquityOption_black_scholes_merton
            \<lparr>EquityOption.strike = 100, expiry = 1, option_type = ''call'', implied_vol = 1 / 5,
             spot = 100, interest_rate = 1 / 50, dividend_yield = 3 / 100\<rparr> = Inr (NpFloat (Fin C)) \<and>
          EquityOption_black_scholes_merton
            \<lparr>EquityOption.strike = 100, expiry = 1, option_type = ''put'', implied_vol = 1 / 5,
             spot = 100, interest_rate = 1 / 50, dividend_yield = 3 / 100\<rparr> = Inr (NpFloat (Fin P)) \<and>
          C - P = 100 * exp (- (3 / 100)) - 100 * exp (- (1 / 50))) \<and>
   (\<exists>C P. Option_black_scholes
            \<lparr>strike = 145, expiry = 1 / 2, option_type = ''call'', implied_vol = 3 / 20,
             spot = 145, interest_rate = 1 / 100\<rparr> = Inr (NpFloat (Fin C)) \<and>
          Option_black_scholes
            \<lparr>strike = 145, expiry = 1 / 2, option_type = ''put'', implied_vol = 3 / 20,
             spot = 145, interest_rate = 1 / 100\<rparr> = Inr (NpFloat (Fin P)) \<and>
          C - P = 145 - 145 * exp (- (1 / 200)))"
  using put_call_parity [of
      "\<lparr>EquityOption.strike = 100, expiry = 1, option_type = ''call'', implied_vol = 1 / 5,
        spot = 100, interest_rate = 1 / 50, dividend_yield = 3 / 100\<rparr>"
      "\<lparr>EquityOption.strike = 100, expiry = 1, option_type = ''put'', implied_vol = 1 / 5,
        spot = 100, interest_rate = 1 / 50, dividend_yield = 3 / 100\<rparr>"
      "\<lparr>strike = 145, expiry = 1 / 2, option_type = ''call'', implied_vol = 3 / 20,
        spot = 145, interest_rate = 1 / 100\<rparr>"
      "\<lparr>strike = 145, expiry = 1 / 2, option_type = ''put'', implied_vol = 3 / 20,
        spot = 145, interest_rate = 1 / 100\<rparr>"]
  by simp

text \<open>
  C3 as the claim states it asks for positive implied volatility and expiry only. With a
  strike of zero neither leg has a price, in either model.
\<close>

theorem put_call_parity_zero_strike:
  "EquityOption_black_scholes_merton
     \<lparr>EquityOption.strike = 0, expiry = 1, option_type = ''call'', implied_vol = 1 / 5,
      spot = 100, interest_rate = 1 / 50, dividend_yield = 3 / 100\<rparr> = Inl ZeroDivisionError \<and>
   EquityOption_black_scholes_merton
     \<lparr>EquityOption.strike = 0, expiry = 1, option_type = ''put'', implied_vol = 1 / 5,
      spot = 100, interest_rate = 1 / 50, dividend_yield = 3 / 100\<rparr> = Inl ZeroDivisionError \<and>
   Option_black_scholes
     \<lparr>strike = 0, expiry = 1 / 2, option_type = ''call'', implied_vol = 3 / 20,
      spot = 145, interest_rate = 1 / 100\<rparr> = Inl ZeroDivisionError \<and>
   Option_black_scholes
     \<lparr>strike = 0, expiry = 1 / 2, option_type = ''put'', implied_vol = 3 / 20,
      spot = 145, interest_rate = 1 / 100\<rparr> = Inl ZeroDivisionError"
  by (simp add: EquityOption_black_scholes_merton_def EquityOption_d1_d2_def
        Option_black_scholes_def Option_d1_d2_def)

section \<open>Gamma and vega\<close>

lemma EquityOption_gamma_vega_Fin:
  assumes "0 < EquityOption.spot e" "0 < EquityOption.strike e"
    and "0 < EquityOption.implied_vol e" "0 < EquityOption.expiry e"
  defines "d1 \<equiv> spec_d1 (EquityOption.spot e) (EquityOption.strike e)
        (EquityOption.interest_rate e) (dividend_yield e) (EquityOption.implied_vol e) (EquityOption.expiry e)"
  shows "EquityOption_gamma e =
           Inr (NpFloat (Fin (norm_pdf d1 /
             (EquityOption.spot e * EquityOption.implied_vol e * sqrt (EquityOption.expiry e)))))"
    and "EquityOption_vega e =
           Inr (NpFloat (Fin (EquityOption.spot e * exp (- dividend_yield e * EquityOption.expiry e)
             * norm_pdf d1 * sqrt (EquityOption.expiry e) / 100)))"
proof -
  have d: "EquityOption.strike e \<noteq> 0" "0 < EquityOption.spot e / EquityOption.strike e"
    using assms by simp_all
  show "EquityOption_gamma e =
           Inr (NpFloat (Fin (norm_pdf d1 /
             (EquityOption.spot e * EquityOption.implied_vol e * sqrt (EquityOption.expiry e)))))"
    using assms(1-4)
    by (simp add: EquityOption_gamma_def EquityOption_d1_d2_Fin [OF assms(3,4) d] np_sqrt_def d1_def)
  show "EquityOption_vega e =
           Inr (NpFloat (Fin (EquityOption.spot e * exp (- dividend_yield e * EquityOption.expiry e)
             * norm_pdf d1 * sqrt (EquityOption.expiry e) / 100)))"
    using assms(1-4)
    by (simp add: EquityOption_vega_def EquityOption_d1_d2_Fin [OF assms(3,4) d] np_sqrt_def d1_def)
qed

lemma Option_gamma_vega_Fin:
  assumes "0 < spot f" "0 < strike f" "0 < implied_vol f" "0 < expiry f"
  defines "d1 \<equiv> spec_fx_d1 (spot f) (strike f) (interest_rate f) (implied_vol f) (expiry f)"
  shows "Option_gamma f =
           Inr (NpFloat (Fin (norm_pdf d1 / (spot f * implied_vol f * sqrt (expiry f)))))"
    and "Option_vega f =
           Inr (NpFloat (Fin (spot f * norm_pdf d1 * sqrt (expiry f) / 100)))"
proof -
  have d: "strike f \<noteq> 0" "0 < spot f / strike f"
    using assms by simp_all
  show "Option_gamma f =
           Inr (NpFloat (Fin (norm_pdf d1 / (spot f * implied_vol f * sqrt (expiry f)))))"
    using assms(1-4)
    by (simp add: Option_gamma_def Option_d1_d2_Fin [OF assms(3,4) d] np_sqrt_def d1_def)
  show "Option_vega f =
           Inr (NpFloat (Fin (spot f * norm_pdf d1 * sqrt (expiry f) / 100)))"
    using assms(1-4)
    by (simp add: Option_vega_def Option_d1_d2_Fin [OF assms(3,4) d] np_sqrt_def d1_def)
qed

text \<open>
  C9 (as amended). For every leg of either model with positive spot, strike, implied
  volatility and expiry, gamma and vega are numbers and neither is negative, whatever the
  option type is.
\<close>

theorem gamma_vega_nonnegative:
  fixes e :: EquityOption and f :: Option
  assumes "0 < EquityOption.spot e" "0 < EquityOption.strike e"
    and "0 < EquityOption.implied_vol e" "0 < EquityOption.expiry e"
    and "0 < spot f" "0 < strike f" "0 < implied_vol f" "0 < expiry f"
  shows "(\<exists>g v. EquityOption_gamma e = Inr (NpFloat (Fin g)) \<and> 0 \<le> g \<and>
                EquityOption_vega e = Inr (NpFloat (Fin v)) \<and> 0 \<le> v) \<and>
         (\<exists>g v. Option_gamma f = Inr (NpFloat (Fin g)) \<and> 0 \<le> g \<and>
                Option_vega f = Inr (NpFloat (Fin v)) \<and> 0 \<le> v)"
proof
  show "\<exists>g v. EquityOption_gamma e = Inr (NpFloat (Fin g)) \<and> 0 \<le> g \<and>
                EquityOption_vega e = Inr (NpFloat (Fin v)) \<and> 0 \<le> v"
  proof -
    let ?d1 = "spec_d1 (EquityOption.spot e) (EquityOption.strike e) (EquityOption.interest_rate e)
                 (dividend_yield e) (EquityOption.implied_vol e) (EquityOption.expiry e)"
    have "0 \<le> norm_pdf ?d1 / (EquityOption.spot e * EquityOption.implied_vol e * sqrt (EquityOption.expiry e))"
      using assms(1-4) by (simp add: less_imp_le [OF norm_pdf_pos])
    moreover have "0 \<le> EquityOption.spot e * exp (- dividend_yield e * EquityOption.expiry e)
             * norm_pdf ?d1 * sqrt (EquityOption.expiry e) / 100"
      using assms(1-4) by (simp add: less_imp_le [OF norm_pdf_pos])
    ultimately show ?thesis
      using EquityOption_gamma_vega_Fin [OF assms(1-4)] by blast
  qed
next
  show "\<exists>g v. Option_gamma f = Inr (NpFloat (Fin g)) \<and> 0 \<le> g \<and>
                Option_vega f = Inr (NpFloat (Fin v)) \<and> 0 \<le> v"
  proof -
    let ?d1 = "spec_fx_d1 (spot f) (strike f) (interest_rate f) (implied_vol f) (expiry f)"
    have "0 \<le> norm_pdf ?d1 / (spot f * implied_vol f * sqrt (expiry f))"
      using assms(5-8) by (simp add: less_imp_le [OF norm_pdf_pos])
    moreover have "0 \<le> spot f * norm_pdf ?d1 * sqrt (expiry f) / 100"
      using assms(5-8) by (simp add: less_imp_le [OF norm_pdf_pos])
    ultimately show ?thesis
      using Option_gamma_vega_Fin [OF assms(5-8)] by blast
  qed
qed

theorem gamma_vega_nonnegative_witness:
  "(\<exists>g v. EquityOption_gamma
             \<lparr>EquityOption.strike = 95, expiry = 1, option_type = ''put'', implied_vol = 1 / 5,
              spot = 100, interest_rate = 1 / 50, dividend_yield = 3 / 100\<rparr> = Inr (NpFloat (Fin g)) \<and>
          0 \<le> g \<and>
          EquityOption_vega
             \<lparr>EquityOption.strike = 95, expiry = 1, option_type = ''put'', implied_vol = 1 / 5,
              spot = 100, interest_rate = 1 / 50, dividend_yield = 3 / 100\<rparr> = Inr (NpFloat (Fin v)) \<and>
          0 \<le> v) \<and>
   (\<exists>g v. Option_gamma
             \<lparr>strike = 147, expiry = 1 / 2, option_type = ''call'', implied_vol = 1 / 10,
              spot = 145, interest_rate = 1 / 100\<rparr> = Inr (NpFloat (Fin g)) \<and>
          0 \<le> g \<and>
          Option_vega
             \<lparr>strike = 147, expiry = 1 / 2, option_type = ''call'', implied_vol = 1 / 10,
              spot = 145, interest_rate = 1 / 100\<rparr> = Inr (NpFloat (Fin v)) \<and>
          0 \<le> v)"
  using gamma_vega_nonnegative [of
      "\<lparr>EquityOption.strike = 95, expiry = 1, option_type = ''put'', implied_vol = 1 / 5,
        spot = 100, interest_rate = 1 / 50, dividend_yield = 3 / 100\<rparr>"
      "\<lparr>strike = 147, expiry = 1 / 2, option_type = ''call'', implied_vol = 1 / 10,
        spot = 145, interest_rate = 1 / 100\<rparr>"]
  by simp

text \<open>
  C9 as the claim states it leaves the strike free. With a strike of zero and positive
  spot, implied volatility and expiry, gamma and vega raise in both models.
\<close>

theorem gamma_vega_zero_strike:
  "EquityOption_gamma
     \<lparr>EquityOption.strike = 0, expiry = 1, option_type = ''call'', implied_vol = 1 / 5,
      spot = 100, interest_rate = 1 / 50, dividend_yield = 3 / 100\<rparr> = Inl ZeroDivisionError \<and>
   EquityOption_vega
     \<lparr>EquityOption.strike = 0, expiry = 1, option_type = ''call'', implied_vol = 1 / 5,
      spot = 100, interest_rate = 1 / 50, dividend_yield = 3 / 100\<rparr> = Inl ZeroDivisionError \<and>
   Option_gamma
     \<lparr>strike = 0, expiry = 1 / 2, option_type = ''call'', implied_vol = 3 / 20,
      spot = 145, interest_rate = 1 / 100\<rparr> = Inl ZeroDivisionError \<and>
   Option_vega
     \<lparr>strike = 0, expiry = 1 / 2, option_type = ''call'', implied_vol = 3 / 20,
      spot = 145, interest_rate = 1 / 100\<rparr> = Inl ZeroDivisionError"
  by (simp add: EquityOption_gamma_def EquityOption_vega_def EquityOption_d1_d2_def
        Option_gamma_def Option_vega_def Option_d1_d2_def)

section \<open>An option type that is neither call nor put\<close>

lemma EquityOption_d1_d2_option_type [simp]:
  "EquityOption_d1_d2 (e\<lparr>EquityOption.option_type := t\<rparr>) = EquityOption_d1_d2 e"
  by (simp add: EquityOption_d1_d2_def)

lemma Option_d1_d2_option_type [simp]:
  "Option_d1_d2 (f\<lparr>option_type := t\<rparr>) = Option_d1_d2 f"
  by (simp add: Option_d1_d2_def)

lemma EquityOption_d1_d2_cases:
  "EquityOption_d1_d2 e = (if EquityOption.strike e = 0 then Inl ZeroDivisionError
     else Inr (projr (EquityOption_d1_d2 e)))"
  by (simp add: EquityOption_d1_d2_def Let_def)

lemma Option_d1_d2_cases:
  "Option_d1_d2 f = (if strike f = 0 then Inl ZeroDivisionError else Inr (projr (Option_d1_d2 f)))"
  by (simp add: Option_d1_d2_def Let_def)

lemma EquityOption_unrecognised:
  assumes "EquityOption.option_type e \<noteq> ''call''" "EquityOption.option_type e \<noteq> ''put''"
  shows "EquityOption_black_scholes_merton e =
           Inl (if EquityOption.strike e = 0 then ZeroDivisionError else ValueError_option_type)"
    and "EquityOption_delta e = (if EquityOption.strike e = 0 then Inl ZeroDivisionError else Inr PyNone)"
    and "EquityOption_theta e =
           Inl (if EquityOption.strike e = 0 then ZeroDivisionError else UnboundLocalError)"
    and "EquityOption_rho e =
           Inl (if EquityOption.strike e = 0 then ZeroDivisionError else UnboundLocalError)"
  using assms
  by (subst EquityOption_black_scholes_merton_def EquityOption_delta_def EquityOption_theta_def
        EquityOption_rho_def, subst EquityOption_d1_d2_cases, simp split: prod.splits)+

lemma Option_unrecognised:
  assumes "option_type f \<noteq> ''call''" "option_type f \<noteq> ''put''"
  shows "Option_black_scholes f =
           Inl (if strike f = 0 then ZeroDivisionError else ValueError_option_type)"
    and "Option_delta f = (if strike f = 0 then Inl ZeroDivisionError else Inr PyNone)"
    and "Option_theta f = Inl (if strike f = 0 then ZeroDivisionError else UnboundLocalError)"
    and "Option_rho f = Inl (if strike f = 0 then ZeroDivisionError else UnboundLocalError)"
  using assms
  by (subst Option_black_scholes_def Option_delta_def Option_theta_def Option_rho_def,
      subst Option_d1_d2_cases, simp split: prod.splits)+

lemma gamma_vega_option_type:
  "EquityOption_gamma (e\<lparr>EquityOption.option_type := t\<rparr>) = EquityOption_gamma e"
  "EquityOption_vega (e\<lparr>EquityOption.option_type := t\<rparr>) = EquityOption_vega e"
  "Option_gamma (f\<lparr>option_type := t\<rparr>) = Option_gamma f"
  "Option_vega (f\<lparr>option_type := t\<rparr>) = Option_vega f"
  by (simp_all add: EquityOption_gamma_def EquityOption_vega_def Option_gamma_def Option_vega_def
        split: sum.splits prod.splits)

text \<open>
  C4. For every leg of either model whose option type is neither \<open>call\<close> nor \<open>put\<close>:
  the price raises, and what it raises is an InvalidArgument of the specification (the
  \<open>ValueError\<close> of the option type, or, on a strike of zero, the division by zero of
  \<open>d1_d2\<close>, which comes first); delta, theta and rho give no number (delta returns
  \<open>None\<close>, theta and rho raise \<open>UnboundLocalError\<close>, and all three raise the division by
  zero on a strike of zero); gamma and vega do not look at the option type: the leg with
  any other option type gives the same result.
\<close>

theorem unrecognised_option_type:
  fixes e :: EquityOption and f :: Option
  assumes "EquityOption.option_type e \<noteq> ''call''" "EquityOption.option_type e \<noteq> ''put''"
    and "option_type f \<noteq> ''call''" "option_type f \<noteq> ''put''"
  shows "EquityOption_black_scholes_merton e =
           Inl (if EquityOption.strike e = 0 then ZeroDivisionError else ValueError_option_type) \<and>
         Option_black_scholes f =
           Inl (if strike f = 0 then ZeroDivisionError else ValueError_option_type) \<and>
         (\<exists>err. EquityOption_black_scholes_merton e = Inl err \<and> error_kind_of err = InvalidArgument) \<and>
         (\<exists>err. Option_black_scholes f = Inl err \<and> error_kind_of err = InvalidArgument) \<and>
         EquityOption_delta e =
           (if EquityOption.strike e = 0 then Inl ZeroDivisionError else Inr PyNone) \<and>
         Option_delta f = (if strike f = 0 then Inl ZeroDivisionError else Inr PyNone) \<and>
         EquityOption_theta e =
           Inl (if EquityOption.strike e = 0 then ZeroDivisionError else UnboundLocalError) \<and>
         Option_theta f = Inl (if strike f = 0 then ZeroDivisionError else UnboundLocalError) \<and>
         EquityOption_rho e =
           Inl (if EquityOption.strike e = 0 then ZeroDivisionError else UnboundLocalError) \<and>
         Option_rho f = Inl (if strike f = 0 then ZeroDivisionError else UnboundLocalError) \<and>
         (\<forall>t. EquityOption_gamma (e\<lparr>EquityOption.option_type := t\<rparr>) = EquityOption_gamma e) \<and>
         (\<forall>t. EquityOption_vega (e\<lparr>EquityOption.option_type := t\<rparr>) = EquityOption_vega e) \<and>
         (\<forall>t. Option_gamma (f\<lparr>option_type := t\<rparr>) = Option_gamma f) \<and>
         (\<forall>t. Option_vega (f\<lparr>option_type := t\<rparr>) = Option_vega f)"
  unfolding EquityOption_unrecognised [OF assms(1,2)] Option_unrecognised [OF assms(3,4)]
    gamma_vega_option_type
  by simp

theorem unrecognised_option_type_witness:
  "EquityOption_black_scholes_merton
     \<lparr>EquityOption.strike = 100, expiry = 1, option_type = ''digital'', implied_vol = 1 / 5,
      spot = 100, interest_rate = 1 / 50, dividend_yield = 3 / 100\<rparr> = Inl ValueError_option_type \<and>
   Option_black_scholes
     \<lparr>strike = 145, expiry = 1 / 2, option_type = ''Call'', implied_vol = 3 / 20,
      spot = 145, interest_rate = 1 / 100\<rparr> = Inl ValueError_option_type \<and>
   EquityOption_delta
     \<lparr>EquityOption.strike = 100, expiry = 1, option_type = ''digital'', implied_vol = 1 / 5,
      spot = 100, interest_rate = 1 / 50, dividend_yield = 3 / 100\<rparr> = Inr PyNone \<and>
   Option_delta
     \<lparr>strike = 145, expiry = 1 / 2, option_type = ''Call'', implied_vol = 3 / 20,
      spot = 145, interest_rate = 1 / 100\<rparr> = Inr PyNone \<and>
   EquityOption_theta
     \<lparr>EquityOption.strike = 100, expiry = 1, option_type = ''digital'', implied_vol = 1 / 5,
      spot = 100, interest_rate = 1 / 50, dividend_yield = 3 / 100\<rparr> = Inl UnboundLocalError \<and>
   Option_theta
     \<lparr>strike = 145, expiry = 1 / 2, option_type = ''Call'', implied_vol = 3 / 20,
      spot = 145, interest_rate = 1 / 100\<rparr> = Inl UnboundLocalError \<and>
   EquityOption_rho
     \<lparr>EquityOption.strike = 100, expiry = 1, option_type = ''digital'', implied_vol = 1 / 5,
      spot = 100, interest_rate = 1 / 50, dividend_yield = 3 / 100\<rparr> = Inl UnboundLocalError \<and>
   Option_rho
     \<lparr>strike = 145, expiry = 1 / 2, option_type = ''Call'', implied_vol = 3 / 20,
      spot = 145, interest_rate = 1 / 100\<rparr> = Inl UnboundLocalError"
  using unrecognised_option_type [of
      "\<lparr>EquityOption.strike = 100, expiry = 1, option_type = ''digital'', implied_vol = 1 / 5,
        spot = 100, interest_rate = 1 / 50, dividend_yield = 3 / 100\<rparr>"
      "\<lparr>strike = 145, expiry = 1 / 2, option_type = ''Call'', implied_vol = 3 / 20,
        spot = 145, interest_rate = 1 / 100\<rparr>"]
  by simp

section \<open>Strategies\<close>

lemma Option_black_scholes_NpFloat:
  "Option_black_scholes l = Inr v \<Longrightarrow> \<exists>x. v = NpFloat x"
  by (auto simp: Option_black_scholes_def split: sum.splits prod.splits if_splits)




lemma py_sum_NpFloat:
  assumes "\<And>x v. f x = Inr v \<Longrightarrow> \<exists>y. v = NpFloat y" "py_sum f acc xs = Inr r" "xs \<noteq> [] \<or> (\<exists>y. acc = NpFloat y)"
  shows "\<exists>y. r = NpFloat y"
  using assms(2,3)
proof (induction xs arbitrary: acc)
  case Nil
  then show ?case by auto
next
  case (Cons x xs)
  from Cons.prems(1) obtain v where v: "f x = Inr v"
    by (cases "f x") auto
  with assms(1) obtain y where y: "v = NpFloat y" by blast
  from Cons.prems(1) v y obtain acc' where a: "py_add acc (NpFloat y) = Inr acc'" "py_sum f acc' xs = Inr r"
    by (cases "py_add acc (NpFloat y)") auto
  from a(1) obtain z where "acc' = NpFloat z"
    by (cases acc) auto
  with Cons.IH [OF a(2)] show ?case by blast
qed

lemma Option_delta_Fin:
  assumes "0 < implied_vol self" "0 < expiry self"
    and "strike self \<noteq> 0" "0 < spot self / strike self"
  shows "option_type self = ''call'' \<Longrightarrow>
           Option_delta self =
             Inr (NpFloat (Fin (norm_cdf (spec_fx_d1 (spot self) (strike self) (interest_rate self)
               (implied_vol self) (expiry self)))))"
    and "option_type self = ''put'' \<Longrightarrow>
           Option_delta self =
             Inr (NpFloat (Fin (norm_cdf (spec_fx_d1 (spot self) (strike self) (interest_rate self)
               (implied_vol self) (expiry self)) - 1)))"
  by (simp_all add: Option_delta_def Option_d1_d2_Fin [OF assms])






text \<open>
  C6. \<open>Butterfly\<close> holds the four legs \<open>[lower, middle, middle, upper]\<close>, so that in the
  price and in the delta of the strategy the middle leg counts twice and the other two
  once.
\<close>

theorem butterfly_weights:
  "options (Butterfly lo mid hi) = [lo, mid, mid, hi] \<and>
   (\<forall>a b c. Option_black_scholes lo = Inr (NpFloat (Fin a)) \<and>
            Option_black_scholes mid = Inr (NpFloat (Fin b)) \<and>
            Option_black_scholes hi = Inr (NpFloat (Fin c)) \<longrightarrow>
      Strategy_strategy_price (Butterfly lo mid hi) = Inr (NpFloat (Fin (a + 2 * b + c)))) \<and>
   (\<forall>a b c. Option_delta lo = Inr (NpFloat (Fin a)) \<and>
            Option_delta mid = Inr (NpFloat (Fin b)) \<and>
            Option_delta hi = Inr (NpFloat (Fin c)) \<longrightarrow>
      Strategy_strategy_delta (Butterfly lo mid hi) = Inr (NpFloat (Fin (a + 2 * b + c))))"
  by (simp add: Butterfly_def Strategy_strategy_price_def Strategy_strategy_delta_def)

theorem butterfly_weights_witness:
  "Strategy_strategy_price (Butterfly
      \<lparr>strike = 143, expiry = 1 / 2, option_type = ''put'', implied_vol = 3 / 20, spot = 145,
        interest_rate = 1 / 100\<rparr>
      \<lparr>strike = 145, expiry = 1 / 2, option_type = ''call'', implied_vol = 3 / 25, spot = 145,
        interest_rate = 1 / 100\<rparr>
      \<lparr>strike = 147, expiry = 1 / 2, option_type = ''call'', implied_vol = 1 / 10, spot = 145,
        interest_rate = 1 / 100\<rparr>) =
     Inr (NpFloat (Fin (spec_fx_put_price 145 143 (1 / 100) (3 / 20) (1 / 2) + 2 * spec_fx_call_price 145 145 (1 / 100) (3 / 25) (1 / 2) + spec_fx_call_price 145 147 (1 / 100) (1 / 10) (1 / 2)))) \<and>
   Strategy_strategy_delta (Butterfly
      \<lparr>strike = 143, expiry = 1 / 2, option_type = ''put'', implied_vol = 3 / 20, spot = 145,
        interest_rate = 1 / 100\<rparr>
      \<lparr>strike = 145, expiry = 1 / 2, option_type = ''call'', implied_vol = 3 / 25, spot = 145,
        interest_rate = 1 / 100\<rparr>
      \<lparr>strike = 147, expiry = 1 / 2, option_type = ''call'', implied_vol = 1 / 10, spot = 145,
        interest_rate = 1 / 100\<rparr>) =
     Inr (NpFloat (Fin (norm_cdf (spec_fx_d1 145 143 (1 / 100) (3 / 20) (1 / 2)) - 1 + 2 * norm_cdf (spec_fx_d1 145 145 (1 / 100) (3 / 25) (1 / 2)) + norm_cdf (spec_fx_d1 145 147 (1 / 100) (1 / 10) (1 / 2)))))"
proof -
  have pp: "Option_black_scholes
      \<lparr>strike = 143, expiry = 1 / 2, option_type = ''put'', implied_vol = 3 / 20, spot = 145,
        interest_rate = 1 / 100\<rparr> = Inr (NpFloat (Fin (spec_fx_put_price 145 143 (1 / 100) (3 / 20) (1 / 2))))"
    using Option_price_put [of "\<lparr>strike = 143, expiry = 1 / 2, option_type = ''put'', implied_vol = 3 / 20, spot = 145,
        interest_rate = 1 / 100\<rparr>"] by simp
  have cp: "Option_black_scholes
      \<lparr>strike = 147, expiry = 1 / 2, option_type = ''call'', implied_vol = 1 / 10, spot = 145,
        interest_rate = 1 / 100\<rparr> = Inr (NpFloat (Fin (spec_fx_call_price 145 147 (1 / 100) (1 / 10) (1 / 2))))"
    using Option_price_call [of "\<lparr>strike = 147, expiry = 1 / 2, option_type = ''call'', implied_vol = 1 / 10, spot = 145,
        interest_rate = 1 / 100\<rparr>"] by simp
  have pd: "Option_delta
      \<lparr>strike = 143, expiry = 1 / 2, option_type = ''put'', implied_vol = 3 / 20, spot = 145,
        interest_rate = 1 / 100\<rparr> = Inr (NpFloat (Fin (norm_cdf (spec_fx_d1 145 143 (1 / 100) (3 / 20) (1 / 2)) - 1)))"
    using Option_delta_Fin(2) [of "\<lparr>strike = 143, expiry = 1 / 2, option_type = ''put'', implied_vol = 3 / 20, spot = 145,
        interest_rate = 1 / 100\<rparr>"] by simp
  have cd: "Option_delta
      \<lparr>strike = 147, expiry = 1 / 2, option_type = ''call'', implied_vol = 1 / 10, spot = 145,
        interest_rate = 1 / 100\<rparr> = Inr (NpFloat (Fin (norm_cdf (spec_fx_d1 145 147 (1 / 100) (1 / 10) (1 / 2)))))"
    using Option_delta_Fin(1) [of "\<lparr>strike = 147, expiry = 1 / 2, option_type = ''call'', implied_vol = 1 / 10, spot = 145,
        interest_rate = 1 / 100\<rparr>"] by simp
  have mp: "Option_black_scholes
      \<lparr>strike = 145, expiry = 1 / 2, option_type = ''call'', implied_vol = 3 / 25, spot = 145,
        interest_rate = 1 / 100\<rparr> = Inr (NpFloat (Fin (spec_fx_call_price 145 145 (1 / 100) (3 / 25) (1 / 2))))"
    using Option_price_call [of "\<lparr>strike = 145, expiry = 1 / 2, option_type = ''call'', implied_vol = 3 / 25, spot = 145,
        interest_rate = 1 / 100\<rparr>"] by simp
  have md: "Option_delta
      \<lparr>strike = 145, expiry = 1 / 2, option_type = ''call'', implied_vol = 3 / 25, spot = 145,
        interest_rate = 1 / 100\<rparr> = Inr (NpFloat (Fin (norm_cdf (spec_fx_d1 145 145 (1 / 100) (3 / 25) (1 / 2)))))"
    using Option_delta_Fin(1) [of "\<lparr>strike = 145, expiry = 1 / 2, option_type = ''call'', implied_vol = 3 / 25, spot = 145,
        interest_rate = 1 / 100\<rparr>"] by simp
  show ?thesis
    using butterfly_weights [of
      "\<lparr>strike = 143, expiry = 1 / 2, option_type = ''put'', implied_vol = 3 / 20, spot = 145,
        interest_rate = 1 / 100\<rparr>"
      "\<lparr>strike = 145, expiry = 1 / 2, option_type = ''call'', implied_vol = 3 / 25, spot = 145,
        interest_rate = 1 / 100\<rparr>"
      "\<lparr>strike = 147, expiry = 1 / 2, option_type = ''call'', implied_vol = 1 / 10, spot = 145,
        interest_rate = 1 / 100\<rparr>"] pp mp cp pd md cd
    by blast
qed

section \<open>Break-even\<close>

text \<open>
  C8 (as amended). \<open>break_even\<close> propagates a failure of the strategy's pricing, and
  returns the strategy's price divided by the move when the move is not zero. With a move
  of zero it raises for a strategy without legs only, where the price is the integer 0;
  the price of a strategy with legs is a numpy scalar, whose division by zero raises
  nothing and returns a float that is not finite.
\<close>

theorem break_even_result:
  "(\<forall>e. Strategy_strategy_price s = Inl e \<longrightarrow> VolatilityAnalyzer_break_even s m = Inl e) \<and>
   (\<forall>p. m \<noteq> 0 \<and> Strategy_strategy_price s = Inr (NpFloat (Fin p)) \<longrightarrow>
      VolatilityAnalyzer_break_even s m = Inr (NpFloat (Fin (p / m)))) \<and>
   (options s = [] \<longrightarrow>
      VolatilityAnalyzer_break_even s m =
        (if m = 0 then Inl ZeroDivisionError else Inr (PyNum (0 / m)))) \<and>
   (\<forall>v. options s \<noteq> [] \<and> Strategy_strategy_price s = Inr v \<longrightarrow>
      VolatilityAnalyzer_break_even s 0 = Inr (NpFloat NonFinite))"
proof (intro conjI allI impI)
  fix e assume "Strategy_strategy_price s = Inl e"
  then show "VolatilityAnalyzer_break_even s m = Inl e"
    by (simp add: VolatilityAnalyzer_break_even_def)
next
  fix p assume "m \<noteq> 0 \<and> Strategy_strategy_price s = Inr (NpFloat (Fin p))"
  then show "VolatilityAnalyzer_break_even s m = Inr (NpFloat (Fin (p / m)))"
    by (simp add: VolatilityAnalyzer_break_even_def)
next
  assume "options s = []"
  then show "VolatilityAnalyzer_break_even s m =
        (if m = 0 then Inl ZeroDivisionError else Inr (PyNum (0 / m)))"
    by (simp add: VolatilityAnalyzer_break_even_def Strategy_strategy_price_def)
next
  fix v assume a: "options s \<noteq> [] \<and> Strategy_strategy_price s = Inr v"
  then obtain y where "v = NpFloat y"
    unfolding Strategy_strategy_price_def
    using py_sum_NpFloat [of Option_black_scholes "PyNum 0" "options s" v]
      Option_black_scholes_NpFloat by blast
  with a show "VolatilityAnalyzer_break_even s 0 = Inr (NpFloat NonFinite)"
    by (cases y) (simp_all add: VolatilityAnalyzer_break_even_def)
qed
theorem break_even_result_witness:
  "VolatilityAnalyzer_break_even \<lparr>options = [
      \<lparr>strike = 147, expiry = 1 / 2, option_type = ''call'', implied_vol = 1 / 10, spot = 145,
        interest_rate = 1 / 100\<rparr>]\<rparr> 2 =
     Inr (NpFloat (Fin (spec_fx_call_price 145 147 (1 / 100) (1 / 10) (1 / 2) / 2))) \<and>
   VolatilityAnalyzer_break_even \<lparr>options = [
      \<lparr>strike = 147, expiry = 1 / 2, option_type = ''CALL'', implied_vol = 1 / 10, spot = 145,
        interest_rate = 1 / 100\<rparr>]\<rparr> 2 = Inl ValueError_option_type \<and>
   VolatilityAnalyzer_break_even \<lparr>options = []\<rparr> 0 = Inl ZeroDivisionError \<and>
   VolatilityAnalyzer_break_even \<lparr>options = [
      \<lparr>strike = 143, expiry = 1 / 2, option_type = ''put'', implied_vol = 3 / 20, spot = 145,
        interest_rate = 1 / 100\<rparr>]\<rparr> 0 = Inr (NpFloat NonFinite)"
proof -
  have pp: "Option_black_scholes
      \<lparr>strike = 143, expiry = 1 / 2, option_type = ''put'', implied_vol = 3 / 20, spot = 145,
        interest_rate = 1 / 100\<rparr> = Inr (NpFloat (Fin (spec_fx_put_price 145 143 (1 / 100) (3 / 20) (1 / 2))))"
    using Option_price_put [of "\<lparr>strike = 143, expiry = 1 / 2, option_type = ''put'', implied_vol = 3 / 20, spot = 145,
        interest_rate = 1 / 100\<rparr>"] by simp
  have cp: "Option_black_scholes
      \<lparr>strike = 147, expiry = 1 / 2, option_type = ''call'', implied_vol = 1 / 10, spot = 145,
        interest_rate = 1 / 100\<rparr> = Inr (NpFloat (Fin (spec_fx_call_price 145 147 (1 / 100) (1 / 10) (1 / 2))))"
    using Option_price_call [of "\<lparr>strike = 147, expiry = 1 / 2, option_type = ''call'', implied_vol = 1 / 10, spot = 145,
        interest_rate = 1 / 100\<rparr>"] by simp
  have bad: "Option_black_scholes
      \<lparr>strike = 147, expiry = 1 / 2, option_type = ''CALL'', implied_vol = 1 / 10, spot = 145,
        interest_rate = 1 / 100\<rparr> = Inl ValueError_option_type"
    by (simp add: Option_black_scholes_def Option_d1_d2_def Let_def)
  show ?thesis
    using
      break_even_result [of "\<lparr>options = [
      \<lparr>strike = 147, expiry = 1 / 2, option_type = ''call'', implied_vol = 1 / 10, spot = 145,
        interest_rate = 1 / 100\<rparr>]\<rparr>" 2]
      break_even_result [of "\<lparr>options = [
      \<lparr>strike = 147, expiry = 1 / 2, option_type = ''CALL'', implied_vol = 1 / 10, spot = 145,
        interest_rate = 1 / 100\<rparr>]\<rparr>" 2]
      break_even_result [of "\<lparr>options = []\<rparr>" 0]
      break_even_result [of "\<lparr>options = [
      \<lparr>strike = 143, expiry = 1 / 2, option_type = ''put'', implied_vol = 3 / 20, spot = 145,
        interest_rate = 1 / 100\<rparr>]\<rparr>" 0]
      cp bad pp
    by (simp add: Strategy_strategy_price_def)
qed

text \<open>
  C8 as the claim states it has \<open>break_even\<close> fail on a move of zero. For a strategy of
  one call leg it returns, and what it returns is not a finite number.
\<close>

theorem break_even_zero_move:
  "VolatilityAnalyzer_break_even \<lparr>options = [
      \<lparr>strike = 147, expiry = 1 / 2, option_type = ''call'', implied_vol = 1 / 10, spot = 145,
        interest_rate = 1 / 100\<rparr>]\<rparr> 0 = Inr (NpFloat NonFinite)"
proof -
  have cp: "Option_black_scholes
      \<lparr>strike = 147, expiry = 1 / 2, option_type = ''call'', implied_vol = 1 / 10, spot = 145,
        interest_rate = 1 / 100\<rparr> = Inr (NpFloat (Fin (spec_fx_call_price 145 147 (1 / 100) (1 / 10) (1 / 2))))"
    using Option_price_call [of "\<lparr>strike = 147, expiry = 1 / 2, option_type = ''call'', implied_vol = 1 / 10, spot = 145,
        interest_rate = 1 / 100\<rparr>"] by simp
  then show ?thesis
    by (simp add: VolatilityAnalyzer_break_even_def Strategy_strategy_price_def)
qed

section \<open>Z-score\<close>

text \<open>
  For a list with distinct keys, the sums over the keys of the mapping are the sums over
  the list that \<open>np.mean\<close> and \<open>np.std\<close> compute.
\<close>

lemma sum_dom_map_of:
  assumes "distinct (map fst d)"
  shows "(\<Sum>k\<in>dom (map_of d). g (the (map_of d k))) = sum_list (map (\<lambda>kv. g (snd kv)) d)"
proof -
  have "(\<Sum>k\<in>dom (map_of d). g (the (map_of d k))) =
          (\<Sum>k\<in>set (map fst d). g (the (map_of d k)))"
    by (simp add: dom_map_of_conv_image_fst)
  also have "\<dots> = sum_list (map (\<lambda>k. g (the (map_of d k))) (map fst d))"
    by (rule sum_list_distinct_conv_sum_set [OF assms, symmetric])
  also have "\<dots> = sum_list (map (\<lambda>kv. g (snd kv)) d)"
  proof -
    have "g (the (map_of d (fst kv))) = g (snd kv)" if "kv \<in> set d" for kv
      using map_of_is_SomeI [OF assms, of "fst kv" "snd kv"] that by simp
    then have eq: "map (\<lambda>kv. g (the (map_of d (fst kv)))) d = map (\<lambda>kv. g (snd kv)) d"
      by (intro map_cong refl)
    show ?thesis
      unfolding map_map comp_def eq ..
  qed
  finally show ?thesis .
qed

lemma card_dom_map_of:
  "distinct (map fst d) \<Longrightarrow> card (dom (map_of d)) = length d"
  by (simp add: dom_map_of_conv_image_fst distinct_card flip: set_map)

lemma population_mean_list:
  "distinct (map fst d) \<Longrightarrow>
     population_mean (map_of d) = sum_list (map snd d) / real (length d)"
  using sum_dom_map_of [of d "\<lambda>v. v"]
  by (simp add: population_mean_def card_dom_map_of)

lemma population_std_list:
  "distinct (map fst d) \<Longrightarrow>
     population_std (map_of d) =
       sqrt (sum_list (map (\<lambda>v. (v - sum_list (map snd d) / real (length d))\<^sup>2) (map snd d))
             / real (length d))"
  using sum_dom_map_of [of d "\<lambda>v. (v - population_mean (map_of d))\<^sup>2"]
  by (simp add: population_std_def card_dom_map_of population_mean_list comp_def)

text \<open>
  C7. For every dictionary that is not empty and whose population standard deviation is
  not zero, \<open>z_score\<close> returns \<open>(v - mean) / std\<close> for a strike that is present with
  value \<open>v\<close>, where \<open>mean\<close> and \<open>std\<close> are the population mean and the population
  standard deviation (dividing by the number of entries) of all the values; for a strike
  that is absent it raises the \<open>ValueError\<close> that the specification calls NotFound.
\<close>

theorem z_score_result:
  assumes "distinct (map fst implied_vols)" "implied_vols \<noteq> []"
    and "population_std (map_of implied_vols) \<noteq> 0"
  shows "(\<forall>v. map_of implied_vols k = Some v \<longrightarrow>
            VolatilityAnalyzer_z_score implied_vols k =
              Inr (NpFloat (Fin ((v - population_mean (map_of implied_vols)) /
                                 population_std (map_of implied_vols))))) \<and>
         (map_of implied_vols k = None \<longrightarrow>
            VolatilityAnalyzer_z_score implied_vols k = Inl ValueError_no_implied_vol)"
proof (intro conjI allI impI)
  fix v assume "map_of implied_vols k = Some v"
  with assms(2,3) show "VolatilityAnalyzer_z_score implied_vols k =
              Inr (NpFloat (Fin ((v - population_mean (map_of implied_vols)) /
                                 population_std (map_of implied_vols))))"
    unfolding population_std_list [OF assms(1)] population_mean_list [OF assms(1)]
    by (simp add: VolatilityAnalyzer_z_score_def np_mean_def np_std_def Let_def)
next
  assume "map_of implied_vols k = None"
  then show "VolatilityAnalyzer_z_score implied_vols k = Inl ValueError_no_implied_vol"
    by (simp add: VolatilityAnalyzer_z_score_def Let_def)
qed

theorem z_score_result_witness:
  "VolatilityAnalyzer_z_score [(95, 1 / 5), (100, 9 / 50), (105, 4 / 25)] 95 =
     Inr (NpFloat (Fin ((1 / 5 - population_mean (map_of [(95, 1 / 5), (100, 9 / 50), (105, 4 / 25)])) /
                        population_std (map_of [(95, 1 / 5), (100, 9 / 50), (105, 4 / 25)])))) \<and>
   VolatilityAnalyzer_z_score [(95, 1 / 5), (100, 9 / 50), (105, 4 / 25)] 110 =
     Inl ValueError_no_implied_vol"
proof -
  have d: "distinct (map fst [(95::real, 1 / 5 :: real), (100, 9 / 50), (105, 4 / 25)])"
    by simp
  have s: "population_std (map_of [(95::real, 1 / 5 :: real), (100, 9 / 50), (105, 4 / 25)]) \<noteq> 0"
    unfolding population_std_list [OF d] by (simp add: power2_eq_square)
  show ?thesis
    using z_score_result [OF d _ s, of 95] z_score_result [OF d _ s, of 110]
    by simp
qed

end
